theory Spec2Isabelle
  imports Main "HOL-Library.Word"
begin

unbundle bit_operations_syntax

section \<open>Session tokens: \<open>encodeSessionToken\<close> (db.ts)\<close>

text \<open>
  \<^verbatim>\<open>encodeSessionToken = (token) => encodeHexLowerCase(sha256(new TextEncoder().encode(token)))\<close>

  A JavaScript string is modelled by the bytes of its UTF-8 encoding (\<open>string\<close> is a
  list of 8-bit characters), so \<open>TextEncoder.encode\<close> only changes the element type.
  \<open>sha256\<close> and \<open>encodeHexLowerCase\<close> come from the oslo packages; they are written out
  here after FIPS 180-4, section 6.2, so that the session id is a concrete value.
\<close>

type_synonym byte = "8 word"
type_synonym w32 = "32 word"
type_synonym hstate = "w32 \<times> w32 \<times> w32 \<times> w32 \<times> w32 \<times> w32 \<times> w32 \<times> w32"

definition TextEncoder_encode :: "string \<Rightarrow> byte list" where
  "TextEncoder_encode s = map (\<lambda>c. word_of_nat (of_char c)) s"

definition rotr :: "nat \<Rightarrow> w32 \<Rightarrow> w32" where
  "rotr n w = word_rotr n w"

definition Ch :: "w32 \<Rightarrow> w32 \<Rightarrow> w32 \<Rightarrow> w32" where
  "Ch x y z = (x AND y) XOR (NOT x AND z)"

definition Maj :: "w32 \<Rightarrow> w32 \<Rightarrow> w32 \<Rightarrow> w32" where
  "Maj x y z = (x AND y) XOR (x AND z) XOR (y AND z)"

definition Sigma0 :: "w32 \<Rightarrow> w32" where
  "Sigma0 x = rotr 2 x XOR rotr 13 x XOR rotr 22 x"

definition Sigma1 :: "w32 \<Rightarrow> w32" where
  "Sigma1 x = rotr 6 x XOR rotr 11 x XOR rotr 25 x"

definition sigma0 :: "w32 \<Rightarrow> w32" where
  "sigma0 x = rotr 7 x XOR rotr 18 x XOR drop_bit 3 x"

definition sigma1 :: "w32 \<Rightarrow> w32" where
  "sigma1 x = rotr 17 x XOR rotr 19 x XOR drop_bit 10 x"

text \<open>The round constants and the initial hash value, in decimal.\<close>

definition K256 :: "w32 list" where
  "K256 = [1116352408, 1899447441, 3049323471, 3921009573, 961987163, 1508970993,
    2453635748, 2870763221, 3624381080, 310598401, 607225278, 1426881987, 1925078388,
    2162078206, 2614888103, 3248222580, 3835390401, 4022224774, 264347078, 604807628,
    770255983, 1249150122, 1555081692, 1996064986, 2554220882, 2821834349, 2952996808,
    3210313671, 3336571891, 3584528711, 113926993, 338241895, 666307205, 773529912,
    1294757372, 1396182291, 1695183700, 1986661051, 2177026350, 2456956037, 2730485921,
    2820302411, 3259730800, 3345764771, 3516065817, 3600352804, 4094571909, 275423344,
    430227734, 506948616, 659060556, 883997877, 958139571, 1322822218, 1537002063,
    1747873779, 1955562222, 2024104815, 2227730452, 2361852424, 2428436474, 2756734187,
    3204031479, 3329325298]"

definition H256 :: hstate where
  "H256 = (1779033703, 3144134277, 1013904242, 2773480762,
           1359893119, 2600822924, 528734635, 1541459225)"

definition be64 :: "64 word \<Rightarrow> byte list" where
  "be64 w = map (\<lambda>i. ucast (drop_bit (8 * (7 - i)) w)) [0..<8]"

definition pad :: "byte list \<Rightarrow> byte list" where
  "pad bs = bs @ [128] @ replicate ((119 - length bs mod 64) mod 64) 0
               @ be64 (word_of_nat (8 * length bs))"

definition be32_of :: "byte \<Rightarrow> byte \<Rightarrow> byte \<Rightarrow> byte \<Rightarrow> w32" where
  "be32_of a b c d =
     push_bit 24 (ucast a) OR push_bit 16 (ucast b) OR push_bit 8 (ucast c) OR ucast d"

fun words_of :: "byte list \<Rightarrow> w32 list" where
  "words_of (a # b # c # d # bs) = be32_of a b c d # words_of bs"
| "words_of _ = []"

fun schedule :: "nat \<Rightarrow> w32 list \<Rightarrow> w32 list" where
  "schedule 0 ws = ws"
| "schedule (Suc n) ws =
     schedule n (ws @ [sigma1 (ws ! (length ws - 2)) + ws ! (length ws - 7)
                       + sigma0 (ws ! (length ws - 15)) + ws ! (length ws - 16)])"

fun round256 :: "hstate \<Rightarrow> w32 \<times> w32 \<Rightarrow> hstate" where
  "round256 (a, b, c, d, e, f, g, h) (k, w) =
     (let t1 = h + Sigma1 e + Ch e f g + k + w;
          t2 = Sigma0 a + Maj a b c
      in (t1 + t2, a, b, c, d + t1, e, f, g))"

fun add_state :: "hstate \<Rightarrow> hstate \<Rightarrow> hstate" where
  "add_state (a, b, c, d, e, f, g, h) (a', b', c', d', e', f', g', h') =
     (a + a', b + b', c + c', d + d', e + e', f + f', g + g', h + h')"

definition compress :: "hstate \<Rightarrow> byte list \<Rightarrow> hstate" where
  "compress hs block =
     add_state hs (foldl round256 hs (zip K256 (schedule 48 (words_of block))))"

fun blocks :: "nat \<Rightarrow> byte list \<Rightarrow> byte list list" where
  "blocks 0 bs = []"
| "blocks (Suc n) bs = take 64 bs # blocks n (drop 64 bs)"

definition bytes_of :: "w32 \<Rightarrow> byte list" where
  "bytes_of w = [ucast (drop_bit 24 w), ucast (drop_bit 16 w), ucast (drop_bit 8 w), ucast w]"

fun digest :: "hstate \<Rightarrow> byte list" where
  "digest (a, b, c, d, e, f, g, h) =
     bytes_of a @ bytes_of b @ bytes_of c @ bytes_of d @
     bytes_of e @ bytes_of f @ bytes_of g @ bytes_of h"

definition sha256 :: "byte list \<Rightarrow> byte list" where
  "sha256 bs = digest (foldl compress H256 (blocks (length (pad bs) div 64) (pad bs)))"

definition hex_digit :: "nat \<Rightarrow> char" where
  "hex_digit n = ''0123456789abcdef'' ! n"

definition encodeHexLowerCase :: "byte list \<Rightarrow> string" where
  "encodeHexLowerCase bs =
     concat (map (\<lambda>b. [hex_digit (unat b div 16), hex_digit (unat b mod 16)]) bs)"

definition encodeSessionToken :: "string \<Rightarrow> string" where
  "encodeSessionToken token = encodeHexLowerCase (sha256 (TextEncoder_encode token))"


section \<open>The credential store: class \<open>SessionDatabase\<close> (db.ts)\<close>

text \<open>
  A value thrown by JavaScript code: an \<open>Error\<close> with its message, or anything else
  (the handlers test \<^verbatim>\<open>e instanceof Error\<close>).
\<close>

datatype thrown = Error string | NonError

text \<open>
  A \<open>Bun.Cookie\<close>, with the fields the server reads. The column
  \<open>upstream_cookies\<close> holds the JSON text of a list of cookies,
  \<^verbatim>\<open>JSON.stringify(cookies.map(c => c.toJSON()))\<close>; the model keeps the list itself. What
  \<^verbatim>\<open>new Bun.Cookie(...)\<close> makes of each entry when the list is read back is a
  capability of the environment (\<open>new_Cookie\<close> below).
\<close>

record Cookie =
  name :: string
  val :: string
  maxAge :: "int option"

type_synonym payload = "Cookie list"

text \<open>
  Table \<open>session\<close>: \<open>id TEXT PRIMARY KEY\<close>, \<open>expires_at INTEGER\<close> (seconds),
  \<open>upstream_cookies TEXT\<close>. With \<open>id\<close> the primary key the table is a finite map from
  ids to the other two columns.
\<close>

record row =
  expires_at :: int
  upstream_cookies :: payload

type_synonym database = "string \<rightharpoonup> row"

text \<open>Type \<open>Session\<close>; its field \<open>id\<close> is \<open>sessionId\<close> here, \<open>expiresAt\<close> is
  \<open>Date.getTime()\<close> in milliseconds.\<close>

record Session =
  sessionId :: string
  expiresAt :: int
  upstreamCookies :: payload

definition days_ms :: "int \<Rightarrow> int" where
  "days_ms n = 1000 * 60 * 60 * 24 * n"

text \<open>
  \<open>createSession\<close>; \<open>now\<close> is the reading of \<open>Date.now()\<close>. The \<open>INSERT\<close> fails on
  an id that is already a key (the statement throws, SQLite's message).
\<close>

definition createSession ::
  "database \<Rightarrow> int \<Rightarrow> string \<Rightarrow> payload \<Rightarrow> thrown + (database \<times> Session)" where
  "createSession db now token cookies =
     (let sid = encodeSessionToken token;
          session = \<lparr>sessionId = sid, expiresAt = now + days_ms 30, upstreamCookies = cookies\<rparr>
      in case db sid of
           Some r \<Rightarrow> Inl (Error ''UNIQUE constraint failed: session.id'')
         | None \<Rightarrow>
             Inr (db(sid \<mapsto> \<lparr>expires_at = expiresAt session div 1000,
                             upstream_cookies = cookies\<rparr>),
                  session))"

text \<open>
  \<open>validateSessionToken\<close> calls \<open>Date.now()\<close> up to three times; \<open>now k\<close> is the
  \<open>k\<close>-th reading (from 0) taken during the call.
\<close>

definition validateSessionToken ::
  "database \<Rightarrow> (nat \<Rightarrow> int) \<Rightarrow> string \<Rightarrow> database \<times> Session option" where
  "validateSessionToken db now token =
     (let sid = encodeSessionToken token
      in case db sid of
           None \<Rightarrow> (db, None)
         | Some r \<Rightarrow>
             (let session = \<lparr>sessionId = sid, expiresAt = expires_at r * 1000,
                             upstreamCookies = upstream_cookies r\<rparr>
              in if now 0 \<ge> expiresAt session
                 then (db(sessionId session := None), None)
                 else if now 1 \<ge> expiresAt session - days_ms 15
                 then (let session' = session\<lparr>expiresAt := now 2 + days_ms 30\<rparr>
                       in (db(sessionId session' \<mapsto> r\<lparr>expires_at := expiresAt session' div 1000\<rparr>),
                           Some session'))
                 else (db, Some session)))"

definition invalidateSession :: "database \<Rightarrow> string \<Rightarrow> database" where
  "invalidateSession db sid = db(sid := None)"


section \<open>The forwarded URL\<close>

text \<open>
  The route handler builds \<^verbatim>\<open>new URL(`${proto}://${host}:${port}${path}`)\<close> from the four
  forwarded headers. A \<open>URL\<close> is what the handlers read of the platform's URL object:
  \<open>origin\<close>, \<open>host\<close> (with the port, unless it is the scheme's default), \<open>pathname\<close> and
  the decoded name-value pairs of \<open>searchParams\<close>. Parsing is the platform's; it is a
  capability of the environment (\<open>new_URL\<close> below), so that what follows holds for
  every URL the platform hands over.
\<close>

record URL =
  origin :: string
  host :: string
  pathname :: string
  searchParams :: "(string \<times> string) list"

text \<open>\<open>url.searchParams.get(k)\<close>: the value of the first pair named \<open>k\<close>.\<close>

definition searchParams_get :: "URL \<Rightarrow> string \<Rightarrow> string option" where
  "searchParams_get u k = map_of (searchParams u) k"


section \<open>The server: \<open>createServer\<close> (create-server.ts)\<close>

subsection \<open>Options, requests, responses\<close>

record CookieInit =
  secure :: bool
  httpOnly :: bool
  path :: string
  sameSite :: string

record OIDCOptions =
  clientId :: string
  clientSecret :: string
  tokenEndpoint :: string
  authorizationEndpoint :: string
  scopes :: "string list"

text \<open>\<open>cookieOptions\<close> is \<open>mergedCookieOptions\<close>: the defaults overridden by the
  caller's options. \<open>getHostConfig\<close> and the database are passed separately below.\<close>

record ServerOptions =
  oidcOptions :: OIDCOptions
  cookieOptions :: CookieInit
  callbackPath :: string
  logoutPath :: string

text \<open>A JavaScript number that may be \<open>Infinity\<close> (\<^verbatim>\<open>cookie.maxAge ?? Infinity\<close>).\<close>

datatype jsnum = Fin int | Infinity

fun Math_min2 :: "jsnum \<Rightarrow> jsnum \<Rightarrow> jsnum" where
  "Math_min2 Infinity y = y"
| "Math_min2 (Fin a) Infinity = Fin a"
| "Math_min2 (Fin a) (Fin b) = Fin (min a b)"

definition Math_min :: "jsnum list \<Rightarrow> jsnum" where
  "Math_min xs = foldr Math_min2 xs Infinity"

text \<open>What the handler does to \<open>req.cookies\<close>, in order; Bun sends these changes with
  the response.\<close>

datatype cookie_op =
  SetCookie string string CookieInit jsnum
| DeleteCookie string CookieInit

text \<open>
  A redirect target is kept in parts, the URL and the query parameters set on it,
  instead of its percent-encoded text.
\<close>

record Location =
  href :: string
  params :: "(string \<times> string) list"

record Response =
  status :: nat
  body :: string
  headers :: "(string \<times> string) list"
  location :: "Location option"

record request =
  x_forwarded_proto :: "string option"
  x_forwarded_host :: "string option"
  x_forwarded_port :: "string option"
  x_forwarded_uri :: "string option"
  cookies :: "string \<rightharpoonup> string"

subsection \<open>The capabilities supplied from outside\<close>

text \<open>
  The response of \<open>getUpstreamCookies\<close>: its status, and each \<open>Set-Cookie\<close> header as
  \<^verbatim>\<open>new Bun.Cookie(header)\<close> reads it (\<open>Inl\<close> when the constructor throws).
\<close>

record UpstreamResponse =
  upstream_status :: nat
  set_cookie :: "(thrown + Cookie) list"

definition ok :: "UpstreamResponse \<Rightarrow> bool" where
  "ok r = (200 \<le> upstream_status r \<and> upstream_status r \<le> 299)"

text \<open>Each capability either throws (\<open>Inl\<close>) or returns; \<open>validateUpstreamSession\<close>
  is given the value of the \<open>Cookie\<close> header.\<close>

record HostConfig =
  getUpstreamCookies :: "thrown + UpstreamResponse"
  validateUpstreamSession :: "string \<Rightarrow> thrown + bool"

text \<open>What \<open>validateAuthorizationCode\<close> of the OAuth2 client can throw, as the
  \<open>catch\<close> block of \<open>handleCallback\<close> tells the cases apart.\<close>

datatype exception =
  OAuth2RequestError string
| ArcticFetchError thrown
| OtherThrown thrown

text \<open>
  The environment of one request: the platform's URL parser applied to
  \<^verbatim>\<open>`${proto}://${host}:${port}${path}`\<close> (\<open>Inl\<close> when the constructor throws), the
  bytes \<open>crypto.getRandomValues\<close> delivers (by index), the random session token, the
  outcome of the token exchange for a redirect URI and a code, the host-config resolver,
  the readings of \<open>Date.now()\<close>, and the cookie constructor applied to a stored
  cookie as \<open>JSON.parse\<close> returns it (\<open>Inl\<close> when it throws).
\<close>

record environment =
  new_URL :: "string \<Rightarrow> string \<Rightarrow> string \<Rightarrow> string \<Rightarrow> thrown + URL"
  getRandomValues :: "nat \<Rightarrow> byte"
  generateSessionToken :: string
  validateAuthorizationCode :: "string \<Rightarrow> string \<Rightarrow> exception + unit"
  getHostConfig :: "string \<Rightarrow> thrown + HostConfig"
  dateNow :: "nat \<Rightarrow> int"
  new_Cookie :: "Cookie \<Rightarrow> thrown + Cookie"

text \<open>The calls made to the capabilities, in order.\<close>

datatype event =
  TokenExchange string
| HostConfigLookup string
| UpstreamLogin
| UpstreamValidate string

text \<open>
  What handling one request gives: the response, or the exception that leaves the
  handler uncaught (\<open>Inl\<close>); the changes to the cookies; the database afterwards;
  the calls made.
\<close>

record outcome =
  result :: "thrown + Response"
  cookie_ops :: "cookie_op list"
  store :: database
  calls :: "event list"

subsection \<open>Helpers\<close>

definition falsy :: "string option \<Rightarrow> bool" where
  "falsy v = (v = None \<or> v = Some [])"

definition respond :: "nat \<Rightarrow> string \<Rightarrow> Response" where
  "respond st b = \<lparr>status = st, body = b, headers = [], location = None\<rparr>"

definition Response_redirect :: "Location \<Rightarrow> Response" where
  "Response_redirect l = \<lparr>status = 302, body = [], headers = [], location = Some l\<rparr>"

definition message_or :: "thrown \<Rightarrow> string \<Rightarrow> string" where
  "message_or e d = (case e of Error m \<Rightarrow> m | NonError \<Rightarrow> d)"

fun array_join :: "string \<Rightarrow> string list \<Rightarrow> string" where
  "array_join sep [] = []"
| "array_join sep [x] = x"
| "array_join sep (x # y # ys) = x @ sep @ array_join sep (y # ys)"

definition digit :: string where
  "digit = ''0123456789''"

fun decimal :: "nat \<Rightarrow> string" where
  "decimal n = (if n < 10 then [digit ! n] else decimal (n div 10) @ [digit ! (n mod 10)])"

declare decimal.simps [simp del]

definition STATE_COOKIE_NAME :: "ServerOptions \<Rightarrow> string" where
  "STATE_COOKIE_NAME cfg = (if secure (cookieOptions cfg) then ''__Host-state'' else ''state'')"

definition SESSION_COOKIE_NAME :: "ServerOptions \<Rightarrow> string" where
  "SESSION_COOKIE_NAME cfg =
     (if secure (cookieOptions cfg) then ''__Host-session'' else ''session'')"

text \<open>
  \<open>generateState\<close> of the OAuth2 library: 32 random bytes in base64url without
  padding.
\<close>

definition base64url :: string where
  "base64url = ''ABCDEFGHIJKLMNOPQRSTUVWXYZabcdefghijklmnopqrstuvwxyz0123456789-_''"

fun encodeBase64urlNoPadding :: "byte list \<Rightarrow> string" where
  "encodeBase64urlNoPadding (a # b # c # bs) =
     [base64url ! (unat a div 4), base64url ! (unat a mod 4 * 16 + unat b div 16),
      base64url ! (unat b mod 16 * 4 + unat c div 64), base64url ! (unat c mod 64)]
     @ encodeBase64urlNoPadding bs"
| "encodeBase64urlNoPadding [a, b] =
     [base64url ! (unat a div 4), base64url ! (unat a mod 4 * 16 + unat b div 16),
      base64url ! (unat b mod 16 * 4)]"
| "encodeBase64urlNoPadding [a] =
     [base64url ! (unat a div 4), base64url ! (unat a mod 4 * 16)]"
| "encodeBase64urlNoPadding [] = []"

definition generateState :: "environment \<Rightarrow> string" where
  "generateState env = encodeBase64urlNoPadding (map (getRandomValues env) [0..<32])"

text \<open>
  \<open>getClient\<close> gives the OAuth2 client the redirect URI
  \<^verbatim>\<open>new URL(callbackPath, forwardedUrl.origin).toString()\<close>. For a callback path that is
  an absolute path, as the default \<open>/oauth2/callback\<close> is, this is the origin followed by
  the path.
\<close>

definition redirectURI :: "ServerOptions \<Rightarrow> URL \<Rightarrow> string" where
  "redirectURI cfg forwardedUrl = origin forwardedUrl @ callbackPath cfg"

text \<open>
  \<open>createAuthorizationURL\<close> of the OAuth2 client: the endpoint with \<open>response_type\<close>,
  \<open>client_id\<close>, \<open>redirect_uri\<close>, \<open>state\<close> and, for a non-empty scope list, \<open>scope\<close>.
  The parameters are listed in the order the client sets them; the claims below do not
  depend on it.
\<close>

definition createAuthorizationURL ::
  "string \<Rightarrow> string \<Rightarrow> string \<Rightarrow> string \<Rightarrow> string list \<Rightarrow> Location" where
  "createAuthorizationURL client redirect endpoint state scps =
     \<lparr>href = endpoint,
      params = [(''response_type'', ''code''), (''client_id'', client),
                (''redirect_uri'', redirect), (''state'', state)]
               @ (if scps = [] then [] else [(''scope'', array_join '' '' scps)])\<rparr>"

definition getCookieHeader :: "Cookie list \<Rightarrow> string" where
  "getCookieHeader cs = array_join ''; '' (map (\<lambda>cookie. name cookie @ ''='' @ val cookie) cs)"

text \<open>\<^verbatim>\<open>headers.getAll("set-cookie").map((cookie) => new Bun.Cookie(cookie))\<close>, and
  likewise \<^verbatim>\<open>JSON.parse(session.upstreamCookies).map((cookie) => new Bun.Cookie(cookie))\<close>:
  the first entry the constructor rejects throws.\<close>

fun new_Cookies :: "(thrown + Cookie) list \<Rightarrow> thrown + Cookie list" where
  "new_Cookies [] = Inr []"
| "new_Cookies (Inl e # hs) = Inl e"
| "new_Cookies (Inr c # hs) = (case new_Cookies hs of Inl e \<Rightarrow> Inl e | Inr cs \<Rightarrow> Inr (c # cs))"


subsection \<open>The handlers\<close>

definition redirectToAuth :: "ServerOptions \<Rightarrow> environment \<Rightarrow> URL \<Rightarrow> Response \<times> cookie_op" where
  "redirectToAuth cfg env forwardedUrl =
     (let state = generateState env;
          url = createAuthorizationURL (clientId (oidcOptions cfg)) (redirectURI cfg forwardedUrl)
                  (authorizationEndpoint (oidcOptions cfg)) state (scopes (oidcOptions cfg))
      in (Response_redirect url,
          SetCookie (STATE_COOKIE_NAME cfg) state (cookieOptions cfg) (Fin (60 * 10))))"

text \<open>The \<open>catch\<close> block of \<open>handleCallback\<close>.\<close>

definition catch_callback :: "exception \<Rightarrow> Response" where
  "catch_callback e =
     (case e of
        OAuth2RequestError code \<Rightarrow> respond 401 (''Error: '' @ code)
      | ArcticFetchError cause \<Rightarrow> respond 502 (''Error: '' @ message_or cause ''Unknown'')
      | OtherThrown t \<Rightarrow>
          respond 500 (''An unexpected error occurred: '' @ message_or t ''Unknown''))"

definition upstream_failed :: "string \<Rightarrow> Response" where
  "upstream_failed why = respond 502 (''Failed to authenticate with upstream service: '' @ why)"

definition handleCallback ::
  "ServerOptions \<Rightarrow> environment \<Rightarrow> database \<Rightarrow> request \<Rightarrow> URL \<Rightarrow> outcome" where
  "handleCallback cfg env db req forwardedUrl =
     (let code = searchParams_get forwardedUrl ''code'';
          state = searchParams_get forwardedUrl ''state'';
          storedState = cookies req (STATE_COOKIE_NAME cfg);
          ops = [DeleteCookie (STATE_COOKIE_NAME cfg) (cookieOptions cfg)];
          invalid = \<lparr>result = Inr (respond 400 ''Invalid state or missing code. Please try again.''),
                     cookie_ops = ops, store = db, calls = []\<rparr>
      in if falsy code \<or> falsy storedState \<or> state \<noteq> storedState then invalid
         else case code of
           None \<Rightarrow> invalid
         | Some c \<Rightarrow>
            (case validateAuthorizationCode env (redirectURI cfg forwardedUrl) c of
               Inl e \<Rightarrow>
                 \<lparr>result = Inr (catch_callback e), cookie_ops = ops, store = db,
                  calls = [TokenExchange c]\<rparr>
             | Inr _ \<Rightarrow>
                (let token = generateSessionToken env;
                     h = host forwardedUrl
                 in case getHostConfig env h of
                      Inl err \<Rightarrow>
                        \<lparr>result = Inr (upstream_failed (message_or err ''Unknown Error'')),
                         cookie_ops = ops, store = db,
                         calls = [TokenExchange c, HostConfigLookup h]\<rparr>
                    | Inr hostConfig \<Rightarrow>
                       (let cs = [TokenExchange c, HostConfigLookup h, UpstreamLogin]
                        in case getUpstreamCookies hostConfig of
                             Inl err \<Rightarrow>
                               \<lparr>result = Inr (upstream_failed (message_or err ''Unknown Error'')),
                                cookie_ops = ops, store = db, calls = cs\<rparr>
                           | Inr upstreamResponse \<Rightarrow>
                               if \<not> ok upstreamResponse
                               then \<lparr>result = Inr (upstream_failed
                                                      (decimal (upstream_status upstreamResponse))),
                                     cookie_ops = ops, store = db, calls = cs\<rparr>
                               else
                                (case new_Cookies (set_cookie upstreamResponse) of
                                   Inl e \<Rightarrow>
                                     \<lparr>result = Inr (catch_callback (OtherThrown e)),
                                      cookie_ops = ops, store = db, calls = cs\<rparr>
                                 | Inr upstreamCookieList \<Rightarrow>
                                    (let maxAge' =
                                           Math_min (map (\<lambda>cookie. case maxAge cookie of
                                                                      None \<Rightarrow> Infinity
                                                                    | Some m \<Rightarrow> Fin m) upstreamCookieList
                                                     @ [Fin (60 * 60 * 24 * 30)])
                                     in case createSession db (dateNow env 0) token upstreamCookieList of
                                          Inl e \<Rightarrow>
                                            \<lparr>result = Inr (catch_callback (OtherThrown e)),
                                             cookie_ops = ops, store = db, calls = cs\<rparr>
                                        | Inr (db', session) \<Rightarrow>
                                            \<lparr>result = Inr (Response_redirect
                                                             \<lparr>href = origin forwardedUrl, params = []\<rparr>),
                                             cookie_ops =
                                               ops @ [SetCookie (SESSION_COOKIE_NAME cfg) token
                                                        (cookieOptions cfg) maxAge'],
                                             store = db', calls = cs\<rparr>))))))"

definition handleOtherRequests ::
  "ServerOptions \<Rightarrow> environment \<Rightarrow> database \<Rightarrow> request \<Rightarrow> URL \<Rightarrow> outcome" where
  "handleOtherRequests cfg env db req forwardedUrl =
     (let sessionToken = cookies req (SESSION_COOKIE_NAME cfg);
          del = DeleteCookie (SESSION_COOKIE_NAME cfg) (cookieOptions cfg);
          (redirect, set_state) = redirectToAuth cfg env forwardedUrl
      in if falsy sessionToken
         then \<lparr>result = Inr redirect, cookie_ops = [set_state], store = db, calls = []\<rparr>
         else case sessionToken of
           None \<Rightarrow> \<lparr>result = Inr redirect, cookie_ops = [set_state], store = db, calls = []\<rparr>
         | Some tok \<Rightarrow>
            (case validateSessionToken db (dateNow env) tok of
               (db', None) \<Rightarrow>
                 \<lparr>result = Inr redirect, cookie_ops = [del, set_state], store = db', calls = []\<rparr>
             | (db', Some session) \<Rightarrow>
                (case new_Cookies (map (new_Cookie env) (upstreamCookies session)) of
                   Inl err \<Rightarrow> \<lparr>result = Inl err, cookie_ops = [], store = db', calls = []\<rparr>
                 | Inr upstream \<Rightarrow>
                    (let cookie_header = getCookieHeader upstream;
                         h = host forwardedUrl
                     in case getHostConfig env h of
                          Inl err \<Rightarrow>
                            \<lparr>result = Inl err, cookie_ops = [], store = db',
                             calls = [HostConfigLookup h]\<rparr>
                        | Inr hostConfig \<Rightarrow>
                           (let cs = [HostConfigLookup h, UpstreamValidate cookie_header]
                            in case validateUpstreamSession hostConfig cookie_header of
                                 Inl err \<Rightarrow>
                                   \<lparr>result = Inl err, cookie_ops = [], store = db', calls = cs\<rparr>
                               | Inr valid \<Rightarrow>
                                   if \<not> valid
                                   then \<lparr>result = Inr redirect, cookie_ops = [del, set_state],
                                         store = invalidateSession db' tok, calls = cs\<rparr>
                                   else \<lparr>result = Inr ((respond 200 ''OK'')
                                                          \<lparr>headers := [(''Cookie'', cookie_header)]\<rparr>),
                                         cookie_ops = [], store = db', calls = cs\<rparr>)))))"

text \<open>The logout branch of the route handler.\<close>

definition logout :: "ServerOptions \<Rightarrow> database \<Rightarrow> URL \<Rightarrow> outcome" where
  \<open>logout cfg db forwardedUrl =
     \<lparr>result = Inr ((respond 401 (''Logged out successfully. Go to '' @ origin forwardedUrl
                                   @ '' to log in again.''))
                     \<lparr>headers := [(''Clear-Site-Data'', ''"cookies"'')]\<rparr>),
      cookie_ops = [DeleteCookie (SESSION_COOKIE_NAME cfg) (cookieOptions cfg)],
      store = db, calls = []\<rparr>\<close>

text \<open>
  The handler of the forward-auth route. An exception of the URL constructor leaves the
  handler uncaught.
\<close>

definition forwardAuth ::
  "ServerOptions \<Rightarrow> environment \<Rightarrow> database \<Rightarrow> request \<Rightarrow> outcome" where
  "forwardAuth cfg env db req =
     (let invalid = \<lparr>result = Inr (respond 400 ''Invalid forward-auth request''),
                     cookie_ops = [], store = db, calls = []\<rparr>
      in if falsy (x_forwarded_proto req) \<or> falsy (x_forwarded_host req)
            \<or> falsy (x_forwarded_port req) \<or> falsy (x_forwarded_uri req)
         then invalid
         else case (x_forwarded_proto req, x_forwarded_host req,
                    x_forwarded_port req, x_forwarded_uri req) of
           (Some proto, Some h, Some p, Some uri) \<Rightarrow>
             (case new_URL env proto h p uri of
                Inl err \<Rightarrow> \<lparr>result = Inl err, cookie_ops = [], store = db, calls = []\<rparr>
              | Inr forwardedUrl \<Rightarrow>
                  if pathname forwardedUrl = callbackPath cfg
                  then handleCallback cfg env db req forwardedUrl
                  else if pathname forwardedUrl = logoutPath cfg
                  then logout cfg db forwardedUrl
                  else handleOtherRequests cfg env db req forwardedUrl)
         | _ \<Rightarrow> invalid)"


section \<open>Example inputs\<close>

subsection \<open>A URL parser for plain inputs\<close>

text \<open>
  The examples need the platform's answer on a few forwarded URLs. \<open>plain_URL\<close> gives
  it for plain inputs: scheme \<open>http\<close> or \<open>https\<close>; a host of dot-separated labels of
  lower-case letters and digits whose last label has letters only; a decimal port without
  leading zero, at most 65535, left out of \<open>origin\<close> and \<open>host\<close> when it is the scheme's
  default; a path that starts with a slash, has no dot segment and needs no
  percent-encoding; a query of unreserved characters, \<open>=\<close> and \<open>&\<close>. On such inputs
  this is what the URL constructor returns; a port that is not a number makes the
  constructor throw. The examples use no other input.
\<close>

fun split_on :: "char \<Rightarrow> string \<Rightarrow> string list" where
  "split_on d [] = [[]]"
| "split_on d (c # cs) =
     (if c = d then [] # split_on d cs
      else (case split_on d cs of [] \<Rightarrow> [[c]] | r # rs \<Rightarrow> (c # r) # rs))"

definition lower :: string where
  "lower = ''abcdefghijklmnopqrstuvwxyz''"

definition upper :: string where
  "upper = ''ABCDEFGHIJKLMNOPQRSTUVWXYZ''"

definition hostname_ok :: "string \<Rightarrow> bool" where
  "hostname_ok h =
     (list_all (\<lambda>l. l \<noteq> [] \<and> list_all (\<lambda>c. c \<in> set (lower @ digit)) l) (split_on CHR ''.'' h)
      \<and> list_all (\<lambda>c. c \<in> set lower) (last (split_on CHR ''.'' h)))"

definition port_number :: "string \<Rightarrow> nat" where
  "port_number p = foldl (\<lambda>n c. 10 * n + (of_char c - 48)) 0 p"

definition port_ok :: "string \<Rightarrow> bool" where
  "port_ok p =
     (case p of
        [] \<Rightarrow> False
      | c # cs \<Rightarrow> c \<noteq> CHR ''0'' \<and> list_all (\<lambda>c. c \<in> set digit) p \<and> port_number p \<le> 65535)"

definition default_port :: "string \<Rightarrow> string \<Rightarrow> bool" where
  "default_port proto p = (proto = ''http'' \<and> p = ''80'' \<or> proto = ''https'' \<and> p = ''443'')"

definition pathname_ok :: "string \<Rightarrow> bool" where
  "pathname_ok p =
     (case p of
        [] \<Rightarrow> False
      | c # cs \<Rightarrow>
          c = CHR ''/''
          \<and> list_all (\<lambda>c. c \<in> set (lower @ upper @ digit @ ''-._~/'')) cs
          \<and> list_all (\<lambda>seg. seg \<noteq> ''.'' \<and> seg \<noteq> ''..'') (split_on CHR ''/'' cs))"

definition query_ok :: "string \<Rightarrow> bool" where
  "query_ok q = list_all (\<lambda>c. c \<in> set (lower @ upper @ digit @ ''-._~=&'')) q"

definition plain_searchParams :: "string \<Rightarrow> (string \<times> string) list" where
  "plain_searchParams q =
     map (\<lambda>s. (takeWhile (\<lambda>c. c \<noteq> CHR ''='') s, drop 1 (dropWhile (\<lambda>c. c \<noteq> CHR ''='') s)))
         (filter (\<lambda>s. s \<noteq> []) (split_on CHR ''&'' q))"

definition plain_URL :: "string \<Rightarrow> string \<Rightarrow> string \<Rightarrow> string \<Rightarrow> thrown + URL" where
  "plain_URL proto h p uri =
     (let pth = takeWhile (\<lambda>c. c \<noteq> CHR ''?'') uri;
          qry = drop 1 (dropWhile (\<lambda>c. c \<noteq> CHR ''?'') uri);
          hp = (if default_port proto p then h else h @ '':'' @ p)
      in if (proto = ''http'' \<or> proto = ''https'') \<and> hostname_ok h \<and> port_ok p
            \<and> pathname_ok pth \<and> query_ok qry
         then Inr \<lparr>origin = proto @ ''://'' @ hp, host = hp, pathname = pth,
                   searchParams = plain_searchParams qry\<rparr>
         else Inl (Error ''Invalid URL''))"

subsection \<open>A server, its environment and some requests\<close>

text \<open>A server configured as in the repository's tests, and a callback request whose
  state matches the state cookie.\<close>

definition example_cookieOptions :: CookieInit where
  "example_cookieOptions = \<lparr>secure = False, httpOnly = True, path = ''/'', sameSite = ''strict''\<rparr>"

definition example_options :: ServerOptions where
  "example_options =
     \<lparr>oidcOptions = \<lparr>clientId = ''test-client-id'', clientSecret = ''test-client-secret'',
                     tokenEndpoint = ''https://idp.example.com/token'',
                     authorizationEndpoint = ''https://idp.example.com/authorize'',
                     scopes = [''openid'', ''email'']\<rparr>,
      cookieOptions = example_cookieOptions,
      callbackPath = ''/oauth2/callback'', logoutPath = ''/oauth2/logout''\<rparr>"

definition example_token :: string where
  "example_token = ''0123456789abcdef0123456789abcdef''"

definition example_cookie :: "int option \<Rightarrow> Cookie" where
  "example_cookie age = \<lparr>name = ''test-cookie'', val = ''test-value'', maxAge = age\<rparr>"

definition example_hostConfig :: "(thrown + Cookie) list \<Rightarrow> bool \<Rightarrow> HostConfig" where
  "example_hostConfig hs valid =
     \<lparr>getUpstreamCookies = Inr \<lparr>upstream_status = 200, set_cookie = hs\<rparr>,
      validateUpstreamSession = (\<lambda>cookie_header. Inr valid)\<rparr>"

definition example_env :: "(exception + unit) \<Rightarrow> (thrown + HostConfig) \<Rightarrow> environment" where
  "example_env exchange hc =
     \<lparr>new_URL = plain_URL, getRandomValues = (\<lambda>i. 0), generateSessionToken = example_token,
      validateAuthorizationCode = (\<lambda>redirect code. exchange),
      getHostConfig = (\<lambda>h. hc),
      dateNow = (\<lambda>k. 1700000000000),
      new_Cookie = Inr\<rparr>"

definition example_request :: "string \<Rightarrow> string \<Rightarrow> (string \<rightharpoonup> string) \<Rightarrow> request" where
  "example_request p uri cs =
     \<lparr>x_forwarded_proto = Some ''https'', x_forwarded_host = Some ''app.example.com'',
      x_forwarded_port = Some p, x_forwarded_uri = Some uri, cookies = cs\<rparr>"

definition example_url :: "string \<Rightarrow> string \<Rightarrow> (string \<times> string) list \<Rightarrow> URL" where
  "example_url p pth ps =
     \<lparr>origin = ''https://app.example.com'' @ (if p = [] then [] else '':'' @ p),
      host = ''app.example.com'' @ (if p = [] then [] else '':'' @ p),
      pathname = pth, searchParams = ps\<rparr>"

definition callback_request :: request where
  "callback_request =
     example_request ''443'' ''/oauth2/callback?code=test_code&state=s3cr3tstate''
       [''state'' \<mapsto> ''s3cr3tstate'']"

definition callback_url :: URL where
  "callback_url =
     example_url [] ''/oauth2/callback'' [(''code'', ''test_code''), (''state'', ''s3cr3tstate'')]"

definition login_env :: "(thrown + Cookie) list \<Rightarrow> environment" where
  "login_env hs = example_env (Inr ()) (Inr (example_hostConfig hs True))"

definition mismatch_request :: request where
  "mismatch_request =
     example_request ''443'' ''/oauth2/callback?code=test_code&state=s3cr3tstate''
       [''state'' \<mapsto> ''invalid_state'']"

definition exchange_env :: "exception \<Rightarrow> environment" where
  "exchange_env e = example_env (Inl e) (Inr (example_hostConfig [] True))"

text \<open>A later request for the site's root that carries the session cookie, and a
  database that holds the session created for the token.\<close>

definition session_request :: request where
  "session_request = example_request ''443'' ''/'' [''session'' \<mapsto> example_token]"

definition root_url :: URL where
  "root_url = example_url [] ''/'' []"

definition session_db :: "payload \<Rightarrow> database" where
  "session_db cs =
     [encodeSessionToken example_token \<mapsto> \<lparr>expires_at = 1702592000, upstream_cookies = cs\<rparr>]"

definition validate_env :: "bool \<Rightarrow> environment" where
  "validate_env valid = example_env (Inr ()) (Inr (example_hostConfig [] valid))"

definition failing_env :: "thrown \<Rightarrow> environment" where
  "failing_env e = example_env (Inr ()) (Inl e)"

definition logout_request :: request where
  "logout_request = example_request ''443'' ''/oauth2/logout'' [''session'' \<mapsto> example_token]"

definition logout_url :: URL where
  "logout_url = example_url [] ''/oauth2/logout'' []"


definition page_url :: "string \<Rightarrow> URL" where
  "page_url p = example_url p ''/dashboard'' []"


text \<open>The state \<open>generateState\<close> makes of the example environment's random bytes.\<close>

definition example_state :: string where
  "example_state = ''AAAAAAAAAAAAAAAAAAAAAAAAAAAAAAAAAAAAAAAAAAA''"


section \<open>Basic facts\<close>

lemma length_digest: "length (digest hs) = 32"
  by (induction hs rule: digest.induct) (simp add: bytes_of_def)

lemma length_encodeSessionToken: "length (encodeSessionToken t) = 64"
  by (simp add: encodeSessionToken_def encodeHexLowerCase_def sha256_def length_digest
      length_concat comp_def sum_list_triv)

lemma encodeSessionToken_neq: "length t \<noteq> 64 \<Longrightarrow> encodeSessionToken t \<noteq> t"
  using length_encodeSessionToken [of t] by auto

lemma upt_32:
  "[0..<32] = [0, 1, 2, 3, 4, 5, 6, 7, 8, 9, 10, 11, 12, 13, 14, 15, 16, 17, 18, 19, 20, 21, 22,
               23, 24, 25, 26, 27, 28, 29, 30, 31 :: nat]"
  by (simp add: upt_rec)



lemma example_plain_URLs:
  "plain_URL ''https'' ''app.example.com'' ''443''
     ''/oauth2/callback?code=test_code&state=s3cr3tstate'' = Inr callback_url"
  "plain_URL ''https'' ''app.example.com'' ''443'' ''/oauth2/logout'' = Inr logout_url"
  "plain_URL ''https'' ''app.example.com'' ''443'' ''/'' = Inr root_url"
  "plain_URL ''https'' ''app.example.com'' ''8443'' ''/dashboard'' = Inr (page_url ''8443'')"
  "plain_URL ''https'' ''app.example.com'' ''abc'' ''/dashboard'' = Inl (Error ''Invalid URL'')"
  by (simp_all add: plain_URL_def Let_def hostname_ok_def port_ok_def pathname_ok_def query_ok_def
      default_port_def example_url_def lower_def upper_def digit_def port_number_def
      plain_searchParams_def callback_url_def logout_url_def root_url_def page_url_def)

lemma callback_url_simps:
  "searchParams_get callback_url ''code'' = Some ''test_code''"
  "searchParams_get callback_url ''state'' = Some ''s3cr3tstate''"
  "host callback_url = ''app.example.com''"
  "origin callback_url = ''https://app.example.com''"
  "pathname callback_url = ''/oauth2/callback''"
  by (simp_all add: searchParams_get_def example_url_def callback_url_def)

lemma callback_request_simps:
  "cookies callback_request ''state'' = Some ''s3cr3tstate''"
  "x_forwarded_proto callback_request = Some ''https''"
  "x_forwarded_host callback_request = Some ''app.example.com''"
  "x_forwarded_port callback_request = Some ''443''"
  "x_forwarded_uri callback_request = Some ''/oauth2/callback?code=test_code&state=s3cr3tstate''"
  by (simp_all add: callback_request_def example_request_def)

lemma example_options_simps:
  "STATE_COOKIE_NAME example_options = ''state''"
  "SESSION_COOKIE_NAME example_options = ''session''"
  "cookieOptions example_options = example_cookieOptions"
  "callbackPath example_options = ''/oauth2/callback''"
  "logoutPath example_options = ''/oauth2/logout''"
  "clientId (oidcOptions example_options) = ''test-client-id''"
  "authorizationEndpoint (oidcOptions example_options) = ''https://idp.example.com/authorize''"
  "scopes (oidcOptions example_options) = [''openid'', ''email'']"
  by (simp_all add: example_options_def STATE_COOKIE_NAME_def SESSION_COOKIE_NAME_def
      example_cookieOptions_def)

lemma example_env_simps:
  "generateState (example_env ex hc) = example_state"
  "new_URL (example_env ex hc) = plain_URL"
  "new_Cookie (example_env ex hc) = Inr"
  "generateSessionToken (example_env ex hc) = example_token"
  "validateAuthorizationCode (example_env ex hc) redirect code = ex"
  "getHostConfig (example_env ex hc) h = hc"
  "dateNow (example_env ex hc) k = 1700000000000"
  by (simp_all add: example_env_def generateState_def example_state_def base64url_def upt_32)

lemma example_hostConfig_simps:
  "getUpstreamCookies (example_hostConfig hs valid) = Inr \<lparr>upstream_status = 200, set_cookie = hs\<rparr>"
  "validateUpstreamSession (example_hostConfig hs valid) c = Inr valid"
  by (simp_all add: example_hostConfig_def)

lemma Math_min_cap:
  "Math_min (map (\<lambda>cookie. case maxAge cookie of None \<Rightarrow> Infinity | Some m \<Rightarrow> Fin m) cs @ [Fin cap])
   = Fin (Min (set (cap # List.map_filter maxAge cs)))"
proof (induction cs)
  case Nil
  then show ?case by (simp add: Math_min_def)
next
  case (Cons c cs)
  let ?S = "set (List.map_filter maxAge cs)"
  from Cons have IH: "foldr Math_min2
      (map (\<lambda>cookie. case maxAge cookie of None \<Rightarrow> Infinity | Some m \<Rightarrow> Fin m) cs) (Fin cap)
      = Fin (Min (insert cap ?S))"
    by (simp add: Math_min_def)
  show ?case
  proof (cases "maxAge c")
    case None
    then show ?thesis using IH by (simp add: Math_min_def)
  next
    case (Some a)
    have "Min (insert a (insert cap ?S)) = min a (Min (insert cap ?S))"
      by (rule Min_insert) simp_all
    then show ?thesis using IH Some
      by (simp add: Math_min_def insert_commute)
  qed
qed

lemma example_callback:
  "handleCallback example_options (login_env hs) Map.empty callback_request callback_url
   = (case new_Cookies hs of
        Inl e \<Rightarrow>
          \<lparr>result = Inr (catch_callback (OtherThrown e)),
           cookie_ops = [DeleteCookie ''state'' example_cookieOptions],
           store = Map.empty,
           calls = [TokenExchange ''test_code'', HostConfigLookup ''app.example.com'', UpstreamLogin]\<rparr>
      | Inr cs \<Rightarrow>
          \<lparr>result = Inr (Response_redirect \<lparr>href = ''https://app.example.com'', params = []\<rparr>),
           cookie_ops = [DeleteCookie ''state'' example_cookieOptions,
                         SetCookie ''session'' example_token example_cookieOptions
                           (Fin (Min (set (2592000 # List.map_filter maxAge cs))))],
           store = [encodeSessionToken example_token \<mapsto>
                      \<lparr>expires_at = 1702592000, upstream_cookies = cs\<rparr>],
           calls = [TokenExchange ''test_code'', HostConfigLookup ''app.example.com'', UpstreamLogin]\<rparr>)"
  by (simp add: handleCallback_def Let_def callback_url_simps callback_request_simps
      example_options_simps example_env_simps example_hostConfig_simps login_env_def falsy_def
      ok_def createSession_def days_ms_def Math_min_cap redirectURI_def split: sum.splits)

lemma falsy_simps [simp]:
  "falsy None" "falsy (Some s) = (s = [])"
  by (simp_all add: falsy_def)

lemma handleCallback_invalid:
  assumes "falsy (searchParams_get u ''code'') \<or> falsy (cookies req (STATE_COOKIE_NAME cfg))
           \<or> searchParams_get u ''state'' \<noteq> cookies req (STATE_COOKIE_NAME cfg)"
  shows "handleCallback cfg env db req u =
           \<lparr>result = Inr (respond 400 ''Invalid state or missing code. Please try again.''),
            cookie_ops = [DeleteCookie (STATE_COOKIE_NAME cfg) (cookieOptions cfg)],
            store = db, calls = []\<rparr>"
  using assms by (simp add: handleCallback_def Let_def)

lemma handleCallback_exchange_failed:
  assumes "searchParams_get u ''code'' = Some c" and "c \<noteq> []"
    and "cookies req (STATE_COOKIE_NAME cfg) = Some ss" and "ss \<noteq> []"
    and "searchParams_get u ''state'' = Some ss"
    and "validateAuthorizationCode env (redirectURI cfg u) c = Inl e"
  shows "handleCallback cfg env db req u =
           \<lparr>result = Inr (catch_callback e),
            cookie_ops = [DeleteCookie (STATE_COOKIE_NAME cfg) (cookieOptions cfg)],
            store = db, calls = [TokenExchange c]\<rparr>"
  using assms by (simp add: handleCallback_def Let_def)

lemma handleCallback_first_op:
  "take 1 (cookie_ops (handleCallback cfg env db req u))
   = [DeleteCookie (STATE_COOKIE_NAME cfg) (cookieOptions cfg)]"
  by (simp add: handleCallback_def Let_def split: option.splits sum.splits prod.splits)

lemma mismatch_request_simps:
  "cookies mismatch_request ''state'' = Some ''invalid_state''"
  by (simp add: mismatch_request_def example_request_def)

lemma exchange_env_simps:
  "validateAuthorizationCode (exchange_env e) redirect code = Inl e"
  by (simp add: exchange_env_def example_env_simps)

lemma session_request_simps:
  "cookies session_request ''session'' = Some example_token"
  "x_forwarded_proto session_request = Some ''https''"
  "x_forwarded_host session_request = Some ''app.example.com''"
  "x_forwarded_port session_request = Some ''443''"
  "x_forwarded_uri session_request = Some ''/''"
  by (simp_all add: session_request_def example_request_def)

lemma root_url_simps:
  "host root_url = ''app.example.com''"
  "origin root_url = ''https://app.example.com''"
  "pathname root_url = ''/''"
  by (simp_all add: root_url_def example_url_def)

lemma example_token_simps:
  "example_token \<noteq> []" "length example_token = 32"
  by (simp_all add: example_token_def)

lemma example_token_hash: "encodeSessionToken example_token \<noteq> example_token"
  by (rule encodeSessionToken_neq) (simp add: example_token_simps)

lemma session_db_validate:
  "validateSessionToken (session_db cs) (\<lambda>k. 1700000000000) example_token
   = (session_db cs,
      Some \<lparr>sessionId = encodeSessionToken example_token, expiresAt = 1702592000000,
            upstreamCookies = cs\<rparr>)"
  by (simp add: validateSessionToken_def session_db_def Let_def days_ms_def)

lemma example_redirectToAuth:
  "redirectToAuth example_options (example_env ex hc) root_url
   = (Response_redirect
        \<lparr>href = ''https://idp.example.com/authorize'',
         params = [(''response_type'', ''code''), (''client_id'', ''test-client-id''),
                   (''redirect_uri'', ''https://app.example.com/oauth2/callback''),
                   (''state'', example_state), (''scope'', ''openid email'')]\<rparr>,
      SetCookie ''state'' example_state example_cookieOptions (Fin 600))"
  by (simp add: redirectToAuth_def Let_def example_options_simps example_env_simps
      createAuthorizationURL_def redirectURI_def root_url_simps)

lemma dateNow_example: "dateNow (example_env ex hc) = (\<lambda>k. 1700000000000)"
  by (simp add: example_env_def)

lemma validateSessionToken_payload:
  assumes "db (encodeSessionToken tok) = Some r" and "now 0 < expires_at r * 1000"
  shows "\<exists>db' s. validateSessionToken db now tok = (db', Some s)
           \<and> upstreamCookies s = upstream_cookies r
           \<and> (\<exists>r'. db' (encodeSessionToken tok) = Some r'
                  \<and> upstream_cookies r' = upstream_cookies r)"
  using assms by (simp add: validateSessionToken_def Let_def)

lemma handleOtherRequests_valid_session:
  assumes "cookies req (SESSION_COOKIE_NAME cfg) = Some tok" and "tok \<noteq> []"
    and "db (encodeSessionToken tok) = Some r" and "dateNow env 0 < expires_at r * 1000"
    and "new_Cookies (map (new_Cookie env) (upstream_cookies r)) = Inr cs"
    and "getHostConfig env (host u) = Inr hc"
  shows "calls (handleOtherRequests cfg env db req u)
         = [HostConfigLookup (host u), UpstreamValidate (getCookieHeader cs)]"
proof -
  from validateSessionToken_payload [where db = db and now = "dateNow env", OF assms(3,4)]
  obtain db' s where v: "validateSessionToken db (dateNow env) tok = (db', Some s)"
    and p: "upstreamCookies s = upstream_cookies r"
    by blast
  show ?thesis
    using assms(1,2,5,6) v p
    by (simp add: handleOtherRequests_def Let_def split: prod.splits sum.splits)
qed

lemma handleCallback_login_ok:
  assumes "searchParams_get u ''code'' = Some c" and "c \<noteq> []"
    and "cookies req (STATE_COOKIE_NAME cfg) = Some ss" and "ss \<noteq> []"
    and "searchParams_get u ''state'' = Some ss"
    and "validateAuthorizationCode env (redirectURI cfg u) c = Inr x"
    and "getHostConfig env (host u) = Inr hc" and "getUpstreamCookies hc = Inr up" and "ok up"
    and "new_Cookies (set_cookie up) = Inr cs"
    and "db (encodeSessionToken (generateSessionToken env)) = None"
  shows "handleCallback cfg env db req u =
           \<lparr>result = Inr (Response_redirect \<lparr>href = origin u, params = []\<rparr>),
            cookie_ops = [DeleteCookie (STATE_COOKIE_NAME cfg) (cookieOptions cfg),
                          SetCookie (SESSION_COOKIE_NAME cfg) (generateSessionToken env)
                            (cookieOptions cfg)
                            (Fin (Min (set (60 * 60 * 24 * 30 # List.map_filter maxAge cs))))],
            store = db(encodeSessionToken (generateSessionToken env) \<mapsto>
                        \<lparr>expires_at = (dateNow env 0 + days_ms 30) div 1000,
                         upstream_cookies = cs\<rparr>),
            calls = [TokenExchange c, HostConfigLookup (host u), UpstreamLogin]\<rparr>"
  using assms by (simp add: handleCallback_def Let_def createSession_def Math_min_cap)

lemma validate_env_simps:
  "getHostConfig (validate_env valid) h = Inr (example_hostConfig [] valid)"
  "dateNow (validate_env valid) k = 1700000000000"
  "generateState (validate_env valid) = example_state"
  "new_URL (validate_env valid) = plain_URL"
  "new_Cookie (validate_env valid) = Inr"
  by (simp_all add: validate_env_def example_env_simps)

lemma login_env_simps:
  "generateState (login_env hs) = example_state"
  "generateSessionToken (login_env hs) = example_token"
  "validateAuthorizationCode (login_env hs) redirect code = Inr ()"
  "getHostConfig (login_env hs) h = Inr (example_hostConfig hs True)"
  "dateNow (login_env hs) k = 1700000000000"
  by (simp_all add: login_env_def example_env_simps)

lemma session_db_simps:
  "session_db cs (encodeSessionToken example_token)
   = Some \<lparr>expires_at = 1702592000, upstream_cookies = cs\<rparr>"
  by (simp add: session_db_def)

lemma forwardAuth_dispatch:
  assumes "x_forwarded_proto req = Some proto" and "x_forwarded_host req = Some h"
    and "x_forwarded_port req = Some p" and "x_forwarded_uri req = Some uri"
    and "proto \<noteq> []" and "h \<noteq> []" and "p \<noteq> []" and "uri \<noteq> []"
    and "new_URL env proto h p uri = Inr u"
  shows "forwardAuth cfg env db req =
           (if pathname u = callbackPath cfg then handleCallback cfg env db req u
            else if pathname u = logoutPath cfg then logout cfg db u
            else handleOtherRequests cfg env db req u)"
  using assms by (simp add: forwardAuth_def)

lemma forwardAuth_logout:
  assumes "x_forwarded_proto req = Some proto" and "x_forwarded_host req = Some h"
    and "x_forwarded_port req = Some p" and "x_forwarded_uri req = Some uri"
    and "proto \<noteq> []" and "h \<noteq> []" and "p \<noteq> []" and "uri \<noteq> []"
    and "new_URL env proto h p uri = Inr u"
    and "pathname u = logoutPath cfg" and "logoutPath cfg \<noteq> callbackPath cfg"
  shows "forwardAuth cfg env db req = logout cfg db u"
    and "store (forwardAuth cfg env db req) = db"
    and "calls (forwardAuth cfg env db req) = []"
  using assms(10,11) by (simp_all add: forwardAuth_dispatch [OF assms(1-9)] logout_def)

lemma new_Cookies_Inr: "new_Cookies (map Inr cs) = Inr cs"
  by (induction cs) simp_all

lemma logout_request_simps:
  "cookies logout_request ''session'' = Some example_token"
  "x_forwarded_proto logout_request = Some ''https''"
  "x_forwarded_host logout_request = Some ''app.example.com''"
  "x_forwarded_port logout_request = Some ''443''"
  "x_forwarded_uri logout_request = Some ''/oauth2/logout''"
  by (simp_all add: logout_request_def example_request_def)

lemma logout_url_simps:
  "origin logout_url = ''https://app.example.com''"
  "pathname logout_url = ''/oauth2/logout''"
  by (simp_all add: logout_url_def example_url_def)



subsection \<open>What the store keeps of a token\<close>

text \<open>
  \<open>createSession\<close> writes one row, keyed by the hash of the token; nothing else of the
  row depends on the token, and the session is found again under the same token. The hash
  has 64 characters, so it differs from every token of another length, such as the
  32-character tokens the server generates. The hash is not injective; that a preimage
  cannot be computed from a stored id is a property of SHA-256 that these definitions do
  not express.
\<close>

lemma createSession_row:
  assumes "createSession db now t p = Inr (db', s)"
  shows "db' = db(encodeSessionToken t \<mapsto>
                   \<lparr>expires_at = (now + days_ms 30) div 1000, upstream_cookies = p\<rparr>)
         \<and> s = \<lparr>sessionId = encodeSessionToken t, expiresAt = now + days_ms 30,
                 upstreamCookies = p\<rparr>
         \<and> db (encodeSessionToken t) = None"
  using assms by (auto simp: createSession_def Let_def split: option.splits)

lemma createSession_fresh:
  assumes "db (encodeSessionToken t) = None"
  shows "createSession db now t p =
           Inr (db(encodeSessionToken t \<mapsto>
                     \<lparr>expires_at = (now + days_ms 30) div 1000, upstream_cookies = p\<rparr>),
                \<lparr>sessionId = encodeSessionToken t, expiresAt = now + days_ms 30,
                 upstreamCookies = p\<rparr>)"
  using assms by (simp add: createSession_def Let_def)

lemma createSession_found:
  assumes "createSession db now t p = Inr (db', s)"
    and "now' 0 < ((now + days_ms 30) div 1000) * 1000"
  shows "\<exists>s'. snd (validateSessionToken db' now' t) = Some s'
              \<and> sessionId s' = encodeSessionToken t \<and> upstreamCookies s' = p"
  using createSession_row [OF assms(1)] assms(2)
  by (simp add: validateSessionToken_def Let_def)

lemma createSession_hash_only:
  assumes "encodeSessionToken t = encodeSessionToken t'"
  shows "createSession db now t p = createSession db now t' p"
  using assms by (simp add: createSession_def)

lemma encodeSessionToken_not_inj: "\<not> inj encodeSessionToken"
proof
  assume i: "inj encodeSessionToken"
  have "range encodeSessionToken \<subseteq> {s. set s \<subseteq> UNIV \<and> length s = 64}"
    by (auto simp: length_encodeSessionToken)
  moreover have "finite {s :: string. set s \<subseteq> UNIV \<and> length s = 64}"
    by (rule finite_lists_length_eq) simp
  ultimately have "finite (range encodeSessionToken)"
    by (rule finite_subset)
  with i have "finite (UNIV :: string set)"
    by (rule finite_imageD [rotated])
  then show False
    by (simp add: infinite_UNIV_listI)
qed

subsection \<open>The revalidation flow on a session that the upstream accepts\<close>

lemma handleOtherRequests_valid:
  assumes "cookies req (SESSION_COOKIE_NAME cfg) = Some tok" and "tok \<noteq> []"
    and "db (encodeSessionToken tok) = Some r" and "dateNow env 0 < expires_at r * 1000"
    and "new_Cookies (map (new_Cookie env) (upstream_cookies r)) = Inr cs"
    and "getHostConfig env (host u) = Inr hc"
    and "validateUpstreamSession hc (getCookieHeader cs) = Inr True"
  shows "result (handleOtherRequests cfg env db req u)
         = Inr \<lparr>status = 200, body = ''OK'',
                headers = [(''Cookie'', getCookieHeader cs)],
                location = None\<rparr>"
proof -
  from validateSessionToken_payload [where db = db and now = "dateNow env", OF assms(3,4)]
  obtain db' s where v: "validateSessionToken db (dateNow env) tok = (db', Some s)"
    and p: "upstreamCookies s = upstream_cookies r"
    by blast
  show ?thesis
    using assms(1,2,5,6,7) v p
    by (simp add: handleOtherRequests_def Let_def respond_def split: prod.splits)
qed

section \<open>The claims\<close>

text \<open>
  C1, as amended. Whenever the callback answers 302, the upstream login returned a 2xx
  response whose cookies all parsed, the session cookie is set with a max-age that is the
  minimum of the upstream cookies' max-ages and 30 days (in seconds), and the session row
  is stored with \<open>expires_at\<close> 30 days after the clock reading, whatever the cookies'
  max-ages are.
\<close>

theorem callback_session_expiry:
  assumes "result (handleCallback cfg env db req u) = Inr r" and "status r = 302"
  shows "\<exists>hc up cs.
           getHostConfig env (host u) = Inr hc \<and> getUpstreamCookies hc = Inr up \<and> ok up
           \<and> new_Cookies (set_cookie up) = Inr cs
           \<and> cookie_ops (handleCallback cfg env db req u) =
               [DeleteCookie (STATE_COOKIE_NAME cfg) (cookieOptions cfg),
                SetCookie (SESSION_COOKIE_NAME cfg) (generateSessionToken env) (cookieOptions cfg)
                  (Fin (Min (set (60 * 60 * 24 * 30 # List.map_filter maxAge cs))))]
           \<and> store (handleCallback cfg env db req u) =
               db(encodeSessionToken (generateSessionToken env) \<mapsto>
                    \<lparr>expires_at = (dateNow env 0 + days_ms 30) div 1000, upstream_cookies = cs\<rparr>)"
  using assms
  by (auto simp: handleCallback_def Let_def respond_def catch_callback_def upstream_failed_def
      Response_redirect_def createSession_def Math_min_cap
      split: if_splits option.splits sum.splits exception.splits prod.splits)

theorem callback_session_expiry_witness:
  "result (handleCallback example_options (login_env [Inr (example_cookie (Some 3600))])
       Map.empty callback_request callback_url)
     = Inr \<lparr>status = 302, body = [], headers = [],
            location = Some \<lparr>href = ''https://app.example.com'', params = []\<rparr>\<rparr>
   \<and> cookie_ops (handleCallback example_options (login_env [Inr (example_cookie (Some 3600))])
       Map.empty callback_request callback_url)
     = [DeleteCookie ''state'' example_cookieOptions,
        SetCookie ''session'' example_token example_cookieOptions (Fin 3600)]
   \<and> store (handleCallback example_options (login_env [Inr (example_cookie (Some 3600))])
       Map.empty callback_request callback_url)
     = [encodeSessionToken example_token \<mapsto>
          \<lparr>expires_at = 1702592000, upstream_cookies = [example_cookie (Some 3600)]\<rparr>]"
proof -
  let ?out = "handleCallback example_options (login_env [Inr (example_cookie (Some 3600))])
       Map.empty callback_request callback_url"
  have r: "result ?out = Inr (Response_redirect \<lparr>href = ''https://app.example.com'', params = []\<rparr>)"
    by (simp add: example_callback)
  have s: "status (Response_redirect \<lparr>href = ''https://app.example.com'', params = []\<rparr>) = 302"
    by (simp add: Response_redirect_def)
  from callback_session_expiry [OF r s] show ?thesis
    by (simp add: example_callback Response_redirect_def List.map_filter_simps example_cookie_def)
qed

text \<open>
  C1 as stated fails for the stored record: with an upstream cookie of max-age 3600 the
  session cookie gets max-age 3600, but the row expires 30 days after the clock reading.
\<close>

theorem callback_record_expiry_counterexample:
  "cookie_ops (handleCallback example_options (login_env [Inr (example_cookie (Some 3600))])
       Map.empty callback_request callback_url)
     = [DeleteCookie ''state'' example_cookieOptions,
        SetCookie ''session'' example_token example_cookieOptions (Fin 3600)]
   \<and> store (handleCallback example_options (login_env [Inr (example_cookie (Some 3600))])
       Map.empty callback_request callback_url) (encodeSessionToken example_token)
     = Some \<lparr>expires_at = 1702592000, upstream_cookies = [example_cookie (Some 3600)]\<rparr>
   \<and> 1702592000 * 1000 - dateNow (login_env [Inr (example_cookie (Some 3600))]) 0 = days_ms 30
   \<and> days_ms 30 \<noteq> 3600 * 1000"
proof (intro conjI)
  show "1702592000 * 1000 - dateNow (login_env [Inr (example_cookie (Some 3600))]) 0 = days_ms 30"
    by (simp add: login_env_def example_env_simps days_ms_def)
  show "days_ms 30 \<noteq> 3600 * 1000"
    by (simp add: days_ms_def)
qed (simp_all add: example_callback List.map_filter_simps example_cookie_def)

text \<open>
  C2, at the failing input. The store holds the session created for a 32-character token;
  the request carries that token in the session cookie; the host's
  \<open>validateUpstreamSession\<close> returns false. The answer is the redirect to the
  authorization endpoint and the session cookie is deleted, but \<open>handleOtherRequests\<close>
  calls \<open>db.invalidateSession(sessionToken)\<close> with the raw token, and the row is keyed by
  the token's hash: the row stays, and \<open>validateSessionToken\<close> of the same token still
  returns the session.
\<close>

theorem revalidation_keeps_record:
  "result (handleOtherRequests example_options (validate_env False)
             (session_db [example_cookie None]) session_request root_url)
     = Inr (Response_redirect
        \<lparr>href = ''https://idp.example.com/authorize'',
         params = [(''response_type'', ''code''), (''client_id'', ''test-client-id''),
                   (''redirect_uri'', ''https://app.example.com/oauth2/callback''),
                   (''state'', example_state), (''scope'', ''openid email'')]\<rparr>)
   \<and> calls (handleOtherRequests example_options (validate_env False)
             (session_db [example_cookie None]) session_request root_url)
     = [HostConfigLookup ''app.example.com'', UpstreamValidate ''test-cookie=test-value'']
   \<and> store (handleOtherRequests example_options (validate_env False)
             (session_db [example_cookie None]) session_request root_url)
     = session_db [example_cookie None]
   \<and> snd (validateSessionToken
            (store (handleOtherRequests example_options (validate_env False)
                      (session_db [example_cookie None]) session_request root_url))
            (\<lambda>k. 1700000000000) example_token)
     = Some \<lparr>sessionId = encodeSessionToken example_token, expiresAt = 1702592000000,
             upstreamCookies = [example_cookie None]\<rparr>"
proof -
  have inv: "invalidateSession (session_db [example_cookie None]) example_token
             = session_db [example_cookie None]"
    using example_token_hash by (auto simp: invalidateSession_def session_db_def)
  have out: "handleOtherRequests example_options (validate_env False)
               (session_db [example_cookie None]) session_request root_url
     = \<lparr>result = Inr (Response_redirect
        \<lparr>href = ''https://idp.example.com/authorize'',
         params = [(''response_type'', ''code''), (''client_id'', ''test-client-id''),
                   (''redirect_uri'', ''https://app.example.com/oauth2/callback''),
                   (''state'', example_state), (''scope'', ''openid email'')]\<rparr>),
        cookie_ops = [DeleteCookie ''session'' example_cookieOptions,
                      SetCookie ''state'' example_state example_cookieOptions (Fin 600)],
        store = session_db [example_cookie None],
        calls = [HostConfigLookup ''app.example.com'', UpstreamValidate ''test-cookie=test-value'']\<rparr>"
    by (simp add: handleOtherRequests_def validate_env_def example_redirectToAuth
        example_options_simps session_request_simps example_token_simps dateNow_example
        session_db_validate example_env_simps example_hostConfig_simps root_url_simps
        getCookieHeader_def example_cookie_def inv [unfolded example_cookie_def])
  show ?thesis
    by (simp add: out session_db_validate)
qed

text \<open>
  C3. Every callback deletes the state cookie first. Unless the \<open>code\<close> parameter is
  present, the state cookie is present and the cookie equals the \<open>state\<close> parameter, the
  answer is 400 "Invalid state or missing code. Please try again.", the database is
  untouched and no capability is called; and the handler makes a call only if all three
  hold.
\<close>

theorem callback_state_check:
  "take 1 (cookie_ops (handleCallback cfg env db req u))
     = [DeleteCookie (STATE_COOKIE_NAME cfg) (cookieOptions cfg)]
   \<and> (\<not> (searchParams_get u ''code'' \<noteq> None \<and> cookies req (STATE_COOKIE_NAME cfg) \<noteq> None
           \<and> cookies req (STATE_COOKIE_NAME cfg) = searchParams_get u ''state'') \<longrightarrow>
        handleCallback cfg env db req u =
          \<lparr>result = Inr \<lparr>status = 400, body = ''Invalid state or missing code. Please try again.'',
                          headers = [], location = None\<rparr>,
           cookie_ops = [DeleteCookie (STATE_COOKIE_NAME cfg) (cookieOptions cfg)],
           store = db, calls = []\<rparr>)
   \<and> (calls (handleCallback cfg env db req u) \<noteq> [] \<longrightarrow>
        searchParams_get u ''code'' \<noteq> None \<and> cookies req (STATE_COOKIE_NAME cfg) \<noteq> None
        \<and> cookies req (STATE_COOKIE_NAME cfg) = searchParams_get u ''state'')"
proof (intro conjI impI)
  show "take 1 (cookie_ops (handleCallback cfg env db req u))
     = [DeleteCookie (STATE_COOKIE_NAME cfg) (cookieOptions cfg)]"
    by (rule handleCallback_first_op)
next
  assume "\<not> (searchParams_get u ''code'' \<noteq> None \<and> cookies req (STATE_COOKIE_NAME cfg) \<noteq> None
           \<and> cookies req (STATE_COOKIE_NAME cfg) = searchParams_get u ''state'')"
  then have "falsy (searchParams_get u ''code'') \<or> falsy (cookies req (STATE_COOKIE_NAME cfg))
           \<or> searchParams_get u ''state'' \<noteq> cookies req (STATE_COOKIE_NAME cfg)"
    by (auto simp: falsy_def)
  from handleCallback_invalid [OF this]
  show "handleCallback cfg env db req u =
          \<lparr>result = Inr \<lparr>status = 400, body = ''Invalid state or missing code. Please try again.'',
                          headers = [], location = None\<rparr>,
           cookie_ops = [DeleteCookie (STATE_COOKIE_NAME cfg) (cookieOptions cfg)],
           store = db, calls = []\<rparr>"
    by (simp add: respond_def)
next
  assume ne: "calls (handleCallback cfg env db req u) \<noteq> []"
  have "\<not> (falsy (searchParams_get u ''code'') \<or> falsy (cookies req (STATE_COOKIE_NAME cfg))
           \<or> searchParams_get u ''state'' \<noteq> cookies req (STATE_COOKIE_NAME cfg))"
  proof
    assume "falsy (searchParams_get u ''code'') \<or> falsy (cookies req (STATE_COOKIE_NAME cfg))
           \<or> searchParams_get u ''state'' \<noteq> cookies req (STATE_COOKIE_NAME cfg)"
    from handleCallback_invalid [OF this] have "calls (handleCallback cfg env db req u) = []"
      by simp
    with ne show False by simp
  qed
  then show "searchParams_get u ''code'' \<noteq> None" 
    and "cookies req (STATE_COOKIE_NAME cfg) \<noteq> None"
    and "cookies req (STATE_COOKIE_NAME cfg) = searchParams_get u ''state''"
    by (auto simp: falsy_def)
qed

theorem callback_state_check_witness:
  "handleCallback example_options (login_env []) Map.empty mismatch_request callback_url
     = \<lparr>result = Inr \<lparr>status = 400, body = ''Invalid state or missing code. Please try again.'',
                       headers = [], location = None\<rparr>,
        cookie_ops = [DeleteCookie ''state'' example_cookieOptions],
        store = Map.empty, calls = []\<rparr>
   \<and> cookies mismatch_request ''state'' \<noteq> searchParams_get callback_url ''state''
   \<and> calls (handleCallback example_options (login_env []) Map.empty callback_request callback_url)
       \<noteq> []
   \<and> searchParams_get callback_url ''code'' = Some ''test_code''
   \<and> cookies callback_request ''state'' = searchParams_get callback_url ''state''"
  using callback_state_check [of example_options "login_env []" Map.empty mismatch_request callback_url]
    callback_state_check [of example_options "login_env []" Map.empty callback_request callback_url]
  by (simp add: example_callback example_options_simps callback_url_simps callback_request_simps
      mismatch_request_simps)

text \<open>
  C4. \<open>validateSessionToken\<close> looks the row up by the hash of the token. No row: absent,
  nothing written. A row with \<open>now \<ge> expiresAt\<close>: the row is deleted, absent. An unexpired
  row with \<open>expiresAt - now \<le> 15\<close> days: \<open>expiresAt\<close> becomes \<open>now + 30\<close> days, the row
  is updated (the column holds whole seconds) and the renewed session is returned.
  Otherwise the session is returned as stored and nothing is written. Here \<open>now 0\<close>,
  \<open>now 1\<close>, \<open>now 2\<close> are the readings of the clock at the expiry test, the window test
  and the renewal.
\<close>

theorem validateSessionToken_cases:
  "(db (encodeSessionToken token) = None \<longrightarrow>
      validateSessionToken db now token = (db, None))
   \<and> (db (encodeSessionToken token) = Some r \<and> now 0 \<ge> expires_at r * 1000 \<longrightarrow>
      validateSessionToken db now token = (db(encodeSessionToken token := None), None))
   \<and> (db (encodeSessionToken token) = Some r \<and> now 0 < expires_at r * 1000
        \<and> expires_at r * 1000 - now 1 \<le> days_ms 15 \<longrightarrow>
      validateSessionToken db now token =
        (db(encodeSessionToken token \<mapsto> r\<lparr>expires_at := (now 2 + days_ms 30) div 1000\<rparr>),
         Some \<lparr>sessionId = encodeSessionToken token, expiresAt = now 2 + days_ms 30,
               upstreamCookies = upstream_cookies r\<rparr>))
   \<and> (db (encodeSessionToken token) = Some r \<and> now 0 < expires_at r * 1000
        \<and> expires_at r * 1000 - now 1 > days_ms 15 \<longrightarrow>
      validateSessionToken db now token =
        (db, Some \<lparr>sessionId = encodeSessionToken token, expiresAt = expires_at r * 1000,
                   upstreamCookies = upstream_cookies r\<rparr>))"
  by (simp add: validateSessionToken_def Let_def)

theorem validateSessionToken_cases_witness:
  "validateSessionToken Map.empty (\<lambda>k. 1700000000000) ''tok'' = (Map.empty, None)
   \<and> validateSessionToken
        [encodeSessionToken ''tok'' \<mapsto> \<lparr>expires_at = 1700000000, upstream_cookies = []\<rparr>]
        (\<lambda>k. 1700000000000) ''tok''
      = ([encodeSessionToken ''tok'' \<mapsto> \<lparr>expires_at = 1700000000, upstream_cookies = []\<rparr>]
           (encodeSessionToken ''tok'' := None), None)
   \<and> validateSessionToken
        [encodeSessionToken ''tok'' \<mapsto> \<lparr>expires_at = 1700086400, upstream_cookies = []\<rparr>]
        (\<lambda>k. 1700000000000) ''tok''
      = ([encodeSessionToken ''tok'' \<mapsto> \<lparr>expires_at = 1702592000, upstream_cookies = []\<rparr>],
         Some \<lparr>sessionId = encodeSessionToken ''tok'', expiresAt = 1702592000000,
               upstreamCookies = []\<rparr>)
   \<and> validateSessionToken
        [encodeSessionToken ''tok'' \<mapsto> \<lparr>expires_at = 1702000000, upstream_cookies = []\<rparr>]
        (\<lambda>k. 1700000000000) ''tok''
      = ([encodeSessionToken ''tok'' \<mapsto> \<lparr>expires_at = 1702000000, upstream_cookies = []\<rparr>],
         Some \<lparr>sessionId = encodeSessionToken ''tok'', expiresAt = 1702000000000,
               upstreamCookies = []\<rparr>)"
  using validateSessionToken_cases
      [where db = Map.empty and token = "''tok''" and now = "\<lambda>k. 1700000000000"]
    validateSessionToken_cases
      [where db = "[encodeSessionToken ''tok'' \<mapsto> \<lparr>expires_at = 1700000000, upstream_cookies = []\<rparr>]"
         and token = "''tok''" and r = "\<lparr>expires_at = 1700000000, upstream_cookies = []\<rparr>"
         and now = "\<lambda>k. 1700000000000"]
    validateSessionToken_cases
      [where db = "[encodeSessionToken ''tok'' \<mapsto> \<lparr>expires_at = 1700086400, upstream_cookies = []\<rparr>]"
         and token = "''tok''" and r = "\<lparr>expires_at = 1700086400, upstream_cookies = []\<rparr>"
         and now = "\<lambda>k. 1700000000000"]
    validateSessionToken_cases
      [where db = "[encodeSessionToken ''tok'' \<mapsto> \<lparr>expires_at = 1702000000, upstream_cookies = []\<rparr>]"
         and token = "''tok''" and r = "\<lparr>expires_at = 1702000000, upstream_cookies = []\<rparr>"
         and now = "\<lambda>k. 1700000000000"]
  by (simp add: days_ms_def)

text \<open>
  C5, at the failing input. The store holds the unexpired session created for a token and
  a logout request presents that token in the session cookie. The answer is the 401 with
  \<open>Clear-Site-Data: "cookies"\<close> and the session cookie is deleted, but the logout branch
  makes no call to the database: the row stays, and a later request that presents the
  same token is revalidated and answered 200 with the upstream cookies. The branch that
  ends a session after a failed revalidation deletes the cookie and calls
  \<open>db.invalidateSession\<close>; the logout branch only deletes the cookie.
\<close>

theorem logout_keeps_record:
  \<open>forwardAuth example_options (validate_env True) (session_db [example_cookie None]) logout_request =
     \<lparr>result = Inr \<lparr>status = 401,
                     body = ''Logged out successfully. Go to https://app.example.com to log in again.'',
                     headers = [(''Clear-Site-Data'', ''"cookies"'')],
                     location = None\<rparr>,
      cookie_ops = [DeleteCookie ''session'' example_cookieOptions],
      store = session_db [example_cookie None], calls = []\<rparr>
   \<and> cookies logout_request ''session'' = Some example_token
   \<and> cookies session_request ''session'' = Some example_token
   \<and> store (forwardAuth example_options (validate_env True) (session_db [example_cookie None])
              logout_request) (encodeSessionToken example_token)
       = Some \<lparr>expires_at = 1702592000, upstream_cookies = [example_cookie None]\<rparr>
   \<and> result (forwardAuth example_options (validate_env True)
               (store (forwardAuth example_options (validate_env True)
                         (session_db [example_cookie None]) logout_request))
               session_request)
       = Inr \<lparr>status = 200, body = ''OK'', headers = [(''Cookie'', ''test-cookie=test-value'')],
              location = None\<rparr>\<close>
proof -
  have out: \<open>forwardAuth example_options (validate_env True) (session_db [example_cookie None])
               logout_request =
     \<lparr>result = Inr \<lparr>status = 401,
                     body = ''Logged out successfully. Go to https://app.example.com to log in again.'',
                     headers = [(''Clear-Site-Data'', ''"cookies"'')],
                     location = None\<rparr>,
      cookie_ops = [DeleteCookie ''session'' example_cookieOptions],
      store = session_db [example_cookie None], calls = []\<rparr>\<close>
    by (simp add: forwardAuth_dispatch [where u = logout_url, OF logout_request_simps(2-5)]
        validate_env_simps example_plain_URLs logout_def respond_def logout_url_simps
        example_options_simps)
  have "forwardAuth example_options (validate_env True) (session_db [example_cookie None])
          session_request
        = handleOtherRequests example_options (validate_env True)
            (session_db [example_cookie None]) session_request root_url"
    by (simp add: forwardAuth_dispatch [where u = root_url, OF session_request_simps(2-5)]
        validate_env_simps example_plain_URLs root_url_simps example_options_simps)
  moreover have "result (handleOtherRequests example_options (validate_env True)
            (session_db [example_cookie None]) session_request root_url)
       = Inr \<lparr>status = 200, body = ''OK'', headers = [(''Cookie'', getCookieHeader [example_cookie None])],
              location = None\<rparr>"
    by (rule handleOtherRequests_valid
          [where tok = example_token
             and r = "\<lparr>expires_at = 1702592000, upstream_cookies = [example_cookie None]\<rparr>"
             and hc = "example_hostConfig [] True"])
       (simp_all add: example_options_simps session_request_simps example_token_simps
          session_db_simps validate_env_simps example_hostConfig_simps)
  moreover have "getCookieHeader [example_cookie None] = ''test-cookie=test-value''"
    by (simp add: getCookieHeader_def example_cookie_def)
  ultimately show ?thesis
    by (simp add: out logout_request_simps session_request_simps session_db_simps)
qed

text \<open>
  C6, at the failing input. With a valid session and a host-config resolver that throws,
  the revalidation flow has no \<open>try\<close> around \<open>getHostConfig\<close>: the exception leaves
  \<open>handleOtherRequests\<close> uncaught. The callback flow catches the same throw and answers
  502.
\<close>

theorem revalidation_uncaught_throw:
  "result (handleOtherRequests example_options (failing_env (Error ''config not found''))
             (session_db [example_cookie None]) session_request root_url)
     = Inl (Error ''config not found'')
   \<and> result (handleCallback example_options (failing_env (Error ''config not found''))
             Map.empty callback_request callback_url)
     = Inr \<lparr>status = 502,
            body = ''Failed to authenticate with upstream service: config not found'',
            headers = [], location = None\<rparr>"
  by (simp add: handleOtherRequests_def failing_env_def example_redirectToAuth
      example_options_simps session_request_simps example_token_simps dateNow_example
      session_db_validate example_env_simps root_url_simps
      handleCallback_def callback_url_simps callback_request_simps upstream_failed_def
      respond_def message_or_def Let_def)




text \<open>
  C8. Once the state is validated, a failing token exchange is answered by the handler
  itself: a request error of the provider gives 401 with the provider's error code in the
  body, a failed fetch gives 502, anything else 500 with the generic message. The
  database is untouched and no upstream capability is called.
\<close>

theorem callback_exchange_failure:
  assumes "searchParams_get u ''code'' = Some c" and "c \<noteq> []"
    and "cookies req (STATE_COOKIE_NAME cfg) = Some ss" and "ss \<noteq> []"
    and "searchParams_get u ''state'' = Some ss"
    and "validateAuthorizationCode env (redirectURI cfg u) c = Inl e"
  shows "(\<exists>r. result (handleCallback cfg env db req u) = Inr r
            \<and> (case e of
                 OAuth2RequestError code \<Rightarrow> status r = 401 \<and> body r = ''Error: '' @ code
               | ArcticFetchError cause \<Rightarrow> status r = 502
               | OtherThrown t \<Rightarrow>
                   status r = 500
                   \<and> body r = ''An unexpected error occurred: '' @ message_or t ''Unknown''))
         \<and> store (handleCallback cfg env db req u) = db
         \<and> calls (handleCallback cfg env db req u) = [TokenExchange c]
         \<and> cookie_ops (handleCallback cfg env db req u)
             = [DeleteCookie (STATE_COOKIE_NAME cfg) (cookieOptions cfg)]"
  by (simp add: handleCallback_exchange_failed [OF assms] catch_callback_def respond_def
      split: exception.splits)

theorem callback_exchange_failure_witness:
  "result (handleCallback example_options (exchange_env (OAuth2RequestError ''invalid_grant''))
             Map.empty callback_request callback_url)
     = Inr \<lparr>status = 401, body = ''Error: invalid_grant'', headers = [], location = None\<rparr>
   \<and> result (handleCallback example_options (exchange_env (ArcticFetchError (Error ''timeout'')))
             Map.empty callback_request callback_url)
     = Inr \<lparr>status = 502, body = ''Error: timeout'', headers = [], location = None\<rparr>
   \<and> result (handleCallback example_options (exchange_env (OtherThrown NonError))
             Map.empty callback_request callback_url)
     = Inr \<lparr>status = 500, body = ''An unexpected error occurred: Unknown'', headers = [],
            location = None\<rparr>
   \<and> calls (handleCallback example_options (exchange_env (OAuth2RequestError ''invalid_grant''))
             Map.empty callback_request callback_url) = [TokenExchange ''test_code'']"
proof -
  have a: "searchParams_get callback_url ''code'' = Some ''test_code''"
    and b: "''test_code'' \<noteq> []"
    and c: "cookies callback_request (STATE_COOKIE_NAME example_options) = Some ''s3cr3tstate''"
    and d: "''s3cr3tstate'' \<noteq> []"
    and e: "searchParams_get callback_url ''state'' = Some ''s3cr3tstate''"
    by (simp_all add: callback_url_simps callback_request_simps example_options_simps)
  note w = callback_exchange_failure [OF a b c d e exchange_env_simps, where db = Map.empty]
  show ?thesis
    using w [of "OAuth2RequestError ''invalid_grant''"] w [of "ArcticFetchError (Error ''timeout'')"]
      w [of "OtherThrown NonError"]
    by (simp add: handleCallback_exchange_failed [OF a b c d e exchange_env_simps]
        catch_callback_def respond_def message_or_def)
qed

text \<open>
  C9. What can be said of the token hash within this model is proved above: the row is
  keyed by \<open>encodeSessionToken token\<close> and depends on the token only through that value
  (\<open>createSession_row\<close>, \<open>createSession_hash_only\<close>), the session is found again under
  the same token (\<open>createSession_found\<close>), and the id differs from every token that does
  not have 64 characters (\<open>encodeSessionToken_neq\<close>). That the token cannot be computed
  back from the id is the preimage resistance of SHA-256, a statement about the cost of
  computations, which has no counterpart here.
\<close>

text \<open>
  C10. A callback whose state is valid, whose code is exchanged and whose upstream login
  answers 2xx without any \<open>Set-Cookie\<close> header establishes a session (the token's hash
  being a fresh key): the answer is the 302 to the origin, the session cookie has max-age
  30 days, the stored payload is the empty list. In every later state of the database
  that still holds this row unexpired, a request with the session cookie has
  \<open>validateUpstreamSession\<close> called with the empty \<open>Cookie\<close> value, once the host
  config is resolved (renewal keeps the payload: \<open>validateSessionToken_payload\<close>).
\<close>

theorem callback_without_upstream_cookies:
  assumes "searchParams_get u ''code'' = Some c" and "c \<noteq> []"
    and "cookies req (STATE_COOKIE_NAME cfg) = Some ss" and "ss \<noteq> []"
    and "searchParams_get u ''state'' = Some ss"
    and "validateAuthorizationCode env (redirectURI cfg u) c = Inr x"
    and "getHostConfig env (host u) = Inr hc" and "getUpstreamCookies hc = Inr up" and "ok up"
    and "set_cookie up = []"
    and "db (encodeSessionToken (generateSessionToken env)) = None"
    and "generateSessionToken env \<noteq> []"
  shows "result (handleCallback cfg env db req u)
           = Inr \<lparr>status = 302, body = [], headers = [],
                  location = Some \<lparr>href = origin u, params = []\<rparr>\<rparr>
         \<and> cookie_ops (handleCallback cfg env db req u)
           = [DeleteCookie (STATE_COOKIE_NAME cfg) (cookieOptions cfg),
              SetCookie (SESSION_COOKIE_NAME cfg) (generateSessionToken env) (cookieOptions cfg)
                (Fin (60 * 60 * 24 * 30))]
         \<and> store (handleCallback cfg env db req u)
           = db(encodeSessionToken (generateSessionToken env) \<mapsto>
                  \<lparr>expires_at = (dateNow env 0 + days_ms 30) div 1000, upstream_cookies = []\<rparr>)
         \<and> (cookies req' (SESSION_COOKIE_NAME cfg) = Some (generateSessionToken env)
              \<and> db' (encodeSessionToken (generateSessionToken env)) = Some r
              \<and> upstream_cookies r = [] \<and> dateNow env' 0 < expires_at r * 1000
              \<and> getHostConfig env' (host u') = Inr hc' \<longrightarrow>
             calls (handleOtherRequests cfg env' db' req' u')
               = [HostConfigLookup (host u'), UpstreamValidate []])"
proof -
  have nc: "new_Cookies (set_cookie up) = Inr []"
    using assms(10) by simp
  note out = handleCallback_login_ok [where db = db and env = env and cfg = cfg and u = u
      and req = req, OF assms(1-9) nc assms(11)]
  have "calls (handleOtherRequests cfg env' db' req' u')
               = [HostConfigLookup (host u'), UpstreamValidate []]"
    if "cookies req' (SESSION_COOKIE_NAME cfg) = Some (generateSessionToken env)"
      and "db' (encodeSessionToken (generateSessionToken env)) = Some r"
      and "upstream_cookies r = []" and "dateNow env' 0 < expires_at r * 1000"
      and "getHostConfig env' (host u') = Inr hc'"
  proof -
    have "new_Cookies (map (new_Cookie env') (upstream_cookies r)) = Inr []"
      using that(3) by simp
    from handleOtherRequests_valid_session [where db = db' and env = env' and u = u',
        OF that(1) assms(12) that(2) that(4) this that(5)]
    show ?thesis
      by (simp add: getCookieHeader_def)
  qed
  then show ?thesis
    by (simp add: out Response_redirect_def List.map_filter_simps)
qed

theorem callback_without_upstream_cookies_witness:
  "cookie_ops (handleCallback example_options (login_env []) Map.empty callback_request callback_url)
     = [DeleteCookie ''state'' example_cookieOptions,
        SetCookie ''session'' example_token example_cookieOptions (Fin 2592000)]
   \<and> store (handleCallback example_options (login_env []) Map.empty callback_request callback_url)
     = session_db []
   \<and> calls (handleOtherRequests example_options (validate_env True) (session_db [])
              session_request root_url)
     = [HostConfigLookup ''app.example.com'', UpstreamValidate []]"
proof -
  have a: "searchParams_get callback_url ''code'' = Some ''test_code''"
    and b: "''test_code'' \<noteq> []"
    and c: "cookies callback_request (STATE_COOKIE_NAME example_options) = Some ''s3cr3tstate''"
    and d: "''s3cr3tstate'' \<noteq> []"
    and e: "searchParams_get callback_url ''state'' = Some ''s3cr3tstate''"
    by (simp_all add: callback_url_simps callback_request_simps example_options_simps)
  have f: "validateAuthorizationCode (login_env []) (redirectURI example_options callback_url)
             ''test_code'' = Inr ()"
    and g: "getHostConfig (login_env []) (host callback_url) = Inr (example_hostConfig [] True)"
    and h: "getUpstreamCookies (example_hostConfig [] True)
             = Inr \<lparr>upstream_status = 200, set_cookie = []\<rparr>"
    and i: "ok \<lparr>upstream_status = 200, set_cookie = []\<rparr>"
    and j: "set_cookie \<lparr>upstream_status = 200, set_cookie = []\<rparr> = []"
    and k: "Map.empty (encodeSessionToken (generateSessionToken (login_env []))) = None"
    and l: "generateSessionToken (login_env []) \<noteq> []"
    by (simp_all add: login_env_simps example_hostConfig_simps ok_def example_token_simps)
  note w = callback_without_upstream_cookies
    [where db = Map.empty and env = "login_env []" and cfg = example_options
       and req = callback_request and u = callback_url
       and req' = session_request and db' = "session_db []" and env' = "validate_env True"
       and u' = root_url and r = "\<lparr>expires_at = 1702592000, upstream_cookies = []\<rparr>"
       and hc' = "example_hostConfig [] True",
     OF a b c d e f g h i j k l]
  from w show ?thesis
    by (simp add: example_options_simps login_env_simps session_request_simps session_db_simps
        validate_env_simps root_url_simps session_db_def days_ms_def)
qed


end
